theory Spec2Isabelle
  imports Complex_Main
begin

text \<open>
  A model of the construction cost calculator: the materials and the mix calculator
  (\<open>Material\<close>, \<open>Cement\<close>, \<open>Sand\<close>, \<open>Ballast\<close>, \<open>Mixes\<close>,
  \<open>Concrete\<close>), the masonry block (\<open>Block\<close>) and the middleware that limits
  the free requests of an e-mail, in the two versions of the server. The built-ins of
  the language the code calls (\<open>split\<close>, \<open>parseFloat\<close>, \<open>parseInt\<close>,
  \<open>Math.ceil\<close>, the arithmetic of numbers, the conversion of a number to a string,
  property lookup on an object, \<open>encodeURIComponent\<close>) are modelled first.
\<close>

section \<open>JavaScript values used by the calculators\<close>

text \<open>
  A JavaScript number is NaN, a finite value or one of the two infinities. Finite values
  are kept as exact rationals: the rounding of binary64 arithmetic and the sign of zero
  are not modelled (every zero is \<open>+0\<close>, and no finite result overflows). The
  operators follow IEEE 754 on these values: NaN is absorbing, \<open>Infinity - Infinity\<close>,
  \<open>0 * Infinity\<close>, \<open>0 / 0\<close> and \<open>Infinity / Infinity\<close> are NaN, and a
  non-zero value divided by zero is an infinity.
\<close>

datatype number = NaN | Fin rat | Infinity | NegInfinity

fun inf_of :: "bool \<Rightarrow> number" where
  "inf_of negative = (if negative then NegInfinity else Infinity)"

fun is_neg :: "number \<Rightarrow> bool" where
  "is_neg (Fin q) = (q < 0)"
| "is_neg NegInfinity = True"
| "is_neg _ = False"

fun is_zero :: "number \<Rightarrow> bool" where
  "is_zero (Fin q) = (q = 0)"
| "is_zero _ = False"

text \<open>The operator \<open>x + y\<close> on numbers.\<close>

fun jadd :: "number \<Rightarrow> number \<Rightarrow> number" where
  "jadd (Fin a) (Fin b) = Fin (a + b)"
| "jadd NaN _ = NaN"
| "jadd _ NaN = NaN"
| "jadd Infinity NegInfinity = NaN"
| "jadd NegInfinity Infinity = NaN"
| "jadd Infinity _ = Infinity"
| "jadd _ Infinity = Infinity"
| "jadd NegInfinity _ = NegInfinity"
| "jadd _ NegInfinity = NegInfinity"

text \<open>The operator \<open>x * y\<close>: the second case is that of a NaN or an infinite factor.\<close>

definition jmul :: "number \<Rightarrow> number \<Rightarrow> number" where
  "jmul x y =
     (case (x, y) of
        (Fin a, Fin b) \<Rightarrow> Fin (a * b)
      | _ \<Rightarrow> if x = NaN \<or> y = NaN \<or> is_zero x \<or> is_zero y then NaN
             else inf_of (is_neg x \<noteq> is_neg y))"

text \<open>The operator \<open>x / y\<close>.\<close>

fun jdiv :: "number \<Rightarrow> number \<Rightarrow> number" where
  "jdiv NaN _ = NaN"
| "jdiv _ NaN = NaN"
| "jdiv (Fin a) (Fin b) =
     (if b = 0 then (if a = 0 then NaN else inf_of (a < 0)) else Fin (a / b))"
| "jdiv (Fin a) _ = Fin 0"
| "jdiv x (Fin b) = inf_of (is_neg x \<noteq> (b < 0))"
| "jdiv _ _ = NaN"

text \<open>\<open>Math.ceil\<close>.\<close>

fun Math_ceil :: "number \<Rightarrow> number" where
  "Math_ceil (Fin q) = Fin (of_int \<lceil>q\<rceil>)"
| "Math_ceil x = x"

text \<open>The comparison \<open>x >= y\<close>: false as soon as one side is NaN.\<close>

fun jge :: "number \<Rightarrow> number \<Rightarrow> bool" where
  "jge NaN _ = False"
| "jge _ NaN = False"
| "jge (Fin a) (Fin b) = (b \<le> a)"
| "jge Infinity _ = True"
| "jge _ NegInfinity = True"
| "jge _ _ = False"

text \<open>The comparison \<open>x != y\<close> of two numbers: NaN differs from everything.\<close>

definition jne :: "number \<Rightarrow> number \<Rightarrow> bool" where
  "jne x y = (x = NaN \<or> y = NaN \<or> x \<noteq> y)"

subsection \<open>Strings: digits, \<open>split\<close>, \<open>parseFloat\<close>, \<open>parseInt\<close>\<close>

text \<open>
  Strings are byte strings. The white space that \<open>parseFloat\<close> and \<open>parseInt\<close>
  skip is the ASCII part of the language's white space and line terminators.
\<close>

definition isWhiteSpace :: "char \<Rightarrow> bool" where
  "isWhiteSpace c = (of_char c \<in> {9, 10, 11, 12, 13, 32 :: nat})"

definition isDigit :: "char \<Rightarrow> bool" where
  "isDigit c = (48 \<le> (of_char c :: nat) \<and> (of_char c :: nat) \<le> 57)"

definition isHexDigit :: "char \<Rightarrow> bool" where
  "isHexDigit c = (isDigit c \<or> (65 \<le> (of_char c :: nat) \<and> (of_char c :: nat) \<le> 70)
     \<or> (97 \<le> (of_char c :: nat) \<and> (of_char c :: nat) \<le> 102))"

definition digitValue :: "char \<Rightarrow> nat" where
  "digitValue c = (let n = of_char c in
     if 97 \<le> n then n - 87 else if 65 \<le> n then n - 55 else n - 48)"

text \<open>The value of a string of digits in radix \<open>r\<close>, most significant digit first.\<close>

definition digitsValue :: "nat \<Rightarrow> string \<Rightarrow> nat" where
  "digitsValue r ds = foldl (\<lambda>acc c. r * acc + digitValue c) 0 ds"

text \<open>The decimal digits of a natural number, as \<open>String(n)\<close> writes them.\<close>

definition digitChar :: "nat \<Rightarrow> char" where
  "digitChar n = ''0123456789'' ! n"

fun dec :: "nat \<Rightarrow> string" where
  "dec n = (if n < 10 then [digitChar n] else dec (n div 10) @ [digitChar (n mod 10)])"

declare dec.simps [simp del]

text \<open>
  \<open>s.split(sep)\<close> for a separator of one character: the pieces between the
  occurrences of the separator, empty pieces included; the empty string gives one empty
  piece.
\<close>

primrec String_split :: "char \<Rightarrow> string \<Rightarrow> string list" where
  "String_split sep [] = [[]]"
| "String_split sep (c # cs) =
     (if c = sep then [] # String_split sep cs
      else (case String_split sep cs of
              p # ps \<Rightarrow> (c # p) # ps
            | [] \<Rightarrow> [[c]]))"

text \<open>
  \<open>xs[i]\<close> is \<open>undefined\<close> beyond the end of the array, and a built-in that
  expects a string reads \<open>undefined\<close> as the string \<open>"undefined"\<close>.
\<close>

definition subscript :: "string list \<Rightarrow> nat \<Rightarrow> string option" where
  "subscript xs i = (if i < length xs then Some (xs ! i) else None)"

definition ToString_arg :: "string option \<Rightarrow> string" where
  "ToString_arg v = (case v of None \<Rightarrow> ''undefined'' | Some s \<Rightarrow> s)"

text \<open>A leading sign: whether it is a minus, and the rest of the string.\<close>

definition signOf :: "string \<Rightarrow> bool \<times> string" where
  "signOf s = (case s of
       [] \<Rightarrow> (False, s)
     | c # r \<Rightarrow> if c = CHR ''-'' then (True, r) else if c = CHR ''+'' then (False, r)
                else (False, s))"

text \<open>
  The exponent part of a decimal literal: \<open>e\<close> or \<open>E\<close>, an optional sign and at
  least one digit; anything else is no exponent and the factor is 1.
\<close>

definition ExponentPart :: "string \<Rightarrow> rat" where
  "ExponentPart r = (case r of
       [] \<Rightarrow> 1
     | c # r' \<Rightarrow>
         if c = CHR ''e'' \<or> c = CHR ''E'' then
           (let (negative, d) = signOf r'; ds = takeWhile isDigit d
            in if ds = [] then 1
               else if negative then 1 / 10 ^ digitsValue 10 ds
               else 10 ^ digitsValue 10 ds)
         else 1)"

text \<open>
  The longest prefix that is an unsigned decimal literal (digits, an optional fraction,
  an optional exponent; or a fraction alone), and its value; \<open>None\<close> when no prefix
  is one.
\<close>

definition StrUnsignedDecimalLiteral :: "string \<Rightarrow> rat option" where
  "StrUnsignedDecimalLiteral u =
     (let ip = takeWhile isDigit u;
          r1 = dropWhile isDigit u;
          (fp, r2) = (case r1 of
                [] \<Rightarrow> ([], r1)
              | c # r \<Rightarrow>
                  if c = CHR ''.'' \<and> (ip \<noteq> [] \<or> (r \<noteq> [] \<and> isDigit (hd r)))
                  then (takeWhile isDigit r, dropWhile isDigit r)
                  else ([], r1))
      in if ip = [] \<and> fp = [] then None
         else Some ((of_nat (digitsValue 10 ip) + of_nat (digitsValue 10 fp) / 10 ^ length fp)
                    * ExponentPart r2))"

text \<open>
  \<open>parseFloat\<close>: skip leading white space, read a sign, then \<open>Infinity\<close> or the
  longest decimal literal; NaN when there is none. What follows the literal is ignored.
\<close>

definition parseFloat :: "string \<Rightarrow> number" where
  "parseFloat s =
     (let (negative, u) = signOf (dropWhile isWhiteSpace s)
      in if take 8 u = ''Infinity'' then inf_of negative
         else (case StrUnsignedDecimalLiteral u of
                 None \<Rightarrow> NaN
               | Some q \<Rightarrow> Fin (if negative then - q else q)))"

text \<open>
  \<open>parseInt\<close> with no radix: skip leading white space, read a sign, then a
  hexadecimal integer after \<open>0x\<close> or \<open>0X\<close> and a decimal integer otherwise: the
  longest prefix of digits, NaN when it is empty. What follows the digits is ignored.
\<close>

definition parseInt :: "string \<Rightarrow> number" where
  "parseInt s =
     (let (negative, u) = signOf (dropWhile isWhiteSpace s);
          hex = (take 2 u = ''0x'' \<or> take 2 u = ''0X'');
          v = (if hex then drop 2 u else u);
          z = takeWhile (if hex then isHexDigit else isDigit) v;
          n = int (digitsValue (if hex then 16 else 10) z)
      in if z = [] then NaN else Fin (of_int (if negative then - n else n)))"

subsection \<open>Writing a number as a string\<close>

text \<open>
  \<open>String(x)\<close> for a number, as a template literal applies it. An integer below
  \<open>10^21\<close> is written with its decimal digits. Any other finite value is written
  from its significant decimal digits \<open>digs\<close> and the position \<open>n\<close> of the
  decimal point (\<open>10^(n-1) \<le> x < 10^n\<close>): as a decimal fraction, or in exponent
  notation beyond 21 integer digits or 6 leading zeros. The digits are those of the exact
  value (rounded to 17 significant digits for a fraction); the language writes the
  shortest digits that read back as the same binary64 value, which are the same digits
  for a value with at most 15 significant digits.
\<close>

definition pow10 :: "int \<Rightarrow> rat" where
  "pow10 e = (if 0 \<le> e then 10 ^ nat e else 1 / 10 ^ nat (- e))"

definition pointPosition :: "rat \<Rightarrow> int" where
  "pointPosition q =
     (if 1 \<le> q then int (length (dec (nat \<lfloor>q\<rfloor>)))
      else (case List.find (\<lambda>m. 1 \<le> q * 10 ^ m)
                   [1 ..< Suc (length (dec (nat (snd (quotient_of q)))))] of
              None \<Rightarrow> 0
            | Some m \<Rightarrow> 1 - int m))"

definition stripZeros :: "string \<Rightarrow> string" where
  "stripZeros ds = rev (dropWhile (\<lambda>c. c = CHR ''0'') (rev ds))"

definition significand :: "rat \<Rightarrow> string \<times> int" where
  "significand q =
     (let n = pointPosition q;
          s = nat \<lfloor>q * pow10 (17 - n) + 1 / 2\<rfloor>
      in if s = 10 ^ 17 then (''1'', n + 1) else (stripZeros (dec s), n))"

definition positiveToString :: "rat \<Rightarrow> string" where
  "positiveToString q =
     (if of_int \<lfloor>q\<rfloor> = q \<and> q < 10 ^ 21 then dec (nat \<lfloor>q\<rfloor>)
      else
        (let (digs, n) = significand q; k = int (length digs)
         in if k \<le> n \<and> n \<le> 21 then digs @ replicate (nat (n - k)) CHR ''0''
            else if 0 < n \<and> n \<le> 21 then take (nat n) digs @ ''.'' @ drop (nat n) digs
            else if - 6 < n \<and> n \<le> 0 then ''0.'' @ replicate (nat (- n)) CHR ''0'' @ digs
            else (if k = 1 then digs else take 1 digs @ ''.'' @ drop 1 digs)
                 @ ''e'' @ (if n - 1 < 0 then ''-'' else ''+'') @ dec (nat \<bar>n - 1\<bar>)))"

fun Number_toString :: "number \<Rightarrow> string" where
  "Number_toString NaN = ''NaN''"
| "Number_toString Infinity = ''Infinity''"
| "Number_toString NegInfinity = ''-Infinity''"
| "Number_toString (Fin q) =
     (if q = 0 then ''0''
      else if q < 0 then ''-'' @ positiveToString (- q)
      else positiveToString q)"

section \<open>Materials\<close>

text \<open>
  \<open>class Material\<close>: the constructor stores its four arguments; \<open>cost\<close> is a getter
  that multiplies the current quantity by the price; \<open>describe\<close> returns the summary
  when \<open>quantity != 0\<close> and falls off the end of the function (the value
  \<open>undefined\<close>, here \<open>None\<close>) otherwise.
\<close>

record Material =
  name :: string
  quantity :: number
  unit :: string
  price :: number

definition cost :: "'a Material_scheme \<Rightarrow> number" where
  "cost m = jmul (quantity m) (price m)"

definition describe :: "'a Material_scheme \<Rightarrow> string option" where
  "describe m =
     (if jne (quantity m) (Fin 0)
      then Some (name m @ ''...'' @ Number_toString (quantity m) @ ''...'' @ unit m @ ''...''
                 @ Number_toString (price m) @ ''...'' @ Number_toString (cost m))
      else None)"

text \<open>
  \<open>Cement\<close>, \<open>Sand\<close> and \<open>Ballast\<close> extend \<open>Material\<close> with a \<open>factor\<close>;
  the module creates one object of each and exports it.
\<close>

record Aggregate = Material +
  factor :: number

definition Cement :: "number \<Rightarrow> number \<Rightarrow> number \<Rightarrow> Aggregate" where
  "Cement q p f = \<lparr>name = ''cement'', quantity = q, unit = ''bags'', price = p, factor = f\<rparr>"

definition Sand :: "number \<Rightarrow> number \<Rightarrow> number \<Rightarrow> Aggregate" where
  "Sand q p f = \<lparr>name = ''sand'', quantity = q, unit = ''tons'', price = p, factor = f\<rparr>"

definition Ballast :: "number \<Rightarrow> number \<Rightarrow> number \<Rightarrow> Aggregate" where
  "Ballast q p f = \<lparr>name = ''ballast'', quantity = q, unit = ''tons'', price = p, factor = f\<rparr>"

definition cement :: Aggregate where
  "cement = Cement (Fin 50) (Fin 700) (Fin (2896 / 100))"

definition sand :: Aggregate where
  "sand = Sand (Fin 21) (Fin 1350) (Fin (18 / 10))"

definition ballast :: Aggregate where
  "ballast = Ballast (Fin 42) (Fin 2500) (Fin (22 / 10))"

section \<open>The mix calculator\<close>

text \<open>
  \<open>class Mixes\<close>: the constructor stores the volume, the mix factor, the ratio
  string and \<open>hasBallast\<close> (false when not given). \<open>materialList\<close> is the
  module's array of the three shared material objects.
\<close>

record Mixes =
  volume :: number
  factor :: number
  ratio :: string
  hasBallast :: bool

definition materialList0 :: "Aggregate list" where
  "materialList0 = [cement, sand, ballast]"

text \<open>\<open>getRatio\<close> splits the ratio string at the colons.\<close>

definition getRatio :: "Mixes \<Rightarrow> string list" where
  "getRatio this = (let ratioList = String_split CHR '':'' (ratio this) in ratioList)"

text \<open>\<open>getAggregate(index)\<close> is \<open>parseFloat(ratio[index])\<close>.\<close>

definition getAggregate :: "Mixes \<Rightarrow> nat \<Rightarrow> number" where
  "getAggregate this index =
     (let ratio = getRatio this in parseFloat (ToString_arg (subscript ratio index)))"

definition getSum :: "Mixes \<Rightarrow> number" where
  "getSum this =
     (if hasBallast this = False
      then jadd (getAggregate this 0) (getAggregate this 1)
      else jadd (jadd (getAggregate this 0) (getAggregate this 1)) (getAggregate this 2))"

text \<open>
  The state a method call works on: the receiver \<open>this\<close> and the shared material
  objects, in the order of \<open>materialList\<close>. A method returns its result and the
  state it leaves. Reading \<open>material.factor\<close> of \<open>materialList[index]\<close> beyond
  the end of the array throws a TypeError.
\<close>

datatype error = TypeError

record world =
  this :: Mixes
  materialList :: "Aggregate list"

definition getQuantity :: "nat \<Rightarrow> world \<Rightarrow> error + (string option \<times> world)" where
  "getQuantity index w =
     (let sum = getSum (this w);
          comp = getAggregate (this w) index;
          volume = Mixes.volume (this w)
      in if index < length (materialList w) then
           (let material = materialList w ! index;
                factor = Aggregate.factor material;
                mixFactor = Mixes.factor (this w);
                dryVolume = jmul volume mixFactor;
                material' = material\<lparr>quantity :=
                    Math_ceil (jmul (jmul (jdiv comp sum) dryVolume) factor)\<rparr>
            in Inr (describe material', w\<lparr>materialList := (materialList w)[index := material']\<rparr>))
         else Inl TypeError)"

text \<open>\<open>class Concrete extends Mixes\<close>: \<open>getCost\<close> makes the three calls in order.\<close>

definition getCost :: "world \<Rightarrow> error + (string option list \<times> world)" where
  "getCost w0 =
     (case getQuantity 0 w0 of
        Inl e \<Rightarrow> Inl e
      | Inr (r0, w1) \<Rightarrow>
          (case getQuantity 1 w1 of
             Inl e \<Rightarrow> Inl e
           | Inr (r1, w2) \<Rightarrow>
               (case getQuantity 2 w2 of
                  Inl e \<Rightarrow> Inl e
                | Inr (r2, w3) \<Rightarrow> Inr ([r0, r1, r2], w3))))"

text \<open>\<open>new Concrete(volume, factor, ratio, hasBallast)\<close>, with the materials as they are.\<close>

definition Concrete :: "number \<Rightarrow> number \<Rightarrow> string \<Rightarrow> bool \<Rightarrow> Aggregate list \<Rightarrow> world" where
  "Concrete v f r b ms =
     \<lparr>this = \<lparr>volume = v, factor = f, ratio = r, hasBallast = b\<rparr>, materialList = ms\<rparr>"

section \<open>Blocks\<close>







section \<open>The usage limiter\<close>

text \<open>
  \<open>const usageTracker = {}\<close> is an ordinary object used as a table from the e-mail to
  a count. Its own properties are the numbers the server stores. Reading a key that is
  not an own property goes to \<open>Object.prototype\<close>: for the names below it finds a
  built-in function (for \<open>__proto__\<close> the prototype object itself), and
  \<open>undefined\<close> for every other key. Writing a key creates or replaces the own
  property, except \<open>__proto__\<close>, whose setter ignores a value that is not an object.
\<close>

datatype jsval = Undefined | Number number | Object

type_synonym usageTracker = "string \<rightharpoonup> number"

definition ObjectPrototype_keys :: "string list" where
  "ObjectPrototype_keys =
     [''constructor'', ''__defineGetter__'', ''__defineSetter__'', ''hasOwnProperty'',
      ''__lookupGetter__'', ''__lookupSetter__'', ''isPrototypeOf'', ''propertyIsEnumerable'',
      ''toString'', ''valueOf'', ''__proto__'', ''toLocaleString'']"

definition Get :: "usageTracker \<Rightarrow> string \<Rightarrow> jsval" where
  "Get t k =
     (case t k of
        Some n \<Rightarrow> Number n
      | None \<Rightarrow> if k \<in> set ObjectPrototype_keys then Object else Undefined)"

definition Put :: "usageTracker \<Rightarrow> string \<Rightarrow> number \<Rightarrow> usageTracker" where
  "Put t k n = (if k = ''__proto__'' then t else t(k \<mapsto> n))"

text \<open>
  Truthiness (\<open>!v\<close> is its negation) and the conversion to a number that \<open>>=\<close> and
  \<open>++\<close> apply: a function and the prototype object convert to NaN.
\<close>

fun ToBoolean :: "jsval \<Rightarrow> bool" where
  "ToBoolean Undefined = False"
| "ToBoolean (Number n) = (n \<noteq> NaN \<and> \<not> is_zero n)"
| "ToBoolean Object = True"

fun ToNumber :: "jsval \<Rightarrow> number" where
  "ToNumber Undefined = NaN"
| "ToNumber (Number n) = n"
| "ToNumber Object = NaN"

text \<open>
  \<open>encodeURIComponent\<close> on the bytes of the string: letters, digits and
  \<open>- _ . ! ~ * ' ( )\<close> stay, every other byte becomes \<open>%XX\<close>.
\<close>

definition uriUnreserved :: "char \<Rightarrow> bool" where
  "uriUnreserved c =
     (let n = (of_char c :: nat)
      in (48 \<le> n \<and> n \<le> 57) \<or> (65 \<le> n \<and> n \<le> 90) \<or> (97 \<le> n \<and> n \<le> 122)
         \<or> n \<in> {45, 95, 46, 33, 126, 42, 39, 40, 41})"

definition hexDigit :: "nat \<Rightarrow> char" where
  "hexDigit n = ''0123456789ABCDEF'' ! n"

definition encodeURIComponent :: "string \<Rightarrow> string" where
  "encodeURIComponent s =
     concat (map (\<lambda>c. if uriUnreserved c then [c]
                       else [CHR ''%'', hexDigit (of_char c div 16), hexDigit (of_char c mod 16)]) s)"

definition FREE_LIMIT :: number where
  "FREE_LIMIT = Fin 3"

text \<open>
  The middleware, for the e-mail it has read from the request: it answers with
  \<open>next()\<close> or with status 403 and a JSON body, and leaves the tracker it returns.
\<close>

datatype response = Next | Json nat "(string \<times> string) list"

definition middleware :: "string \<Rightarrow> usageTracker \<Rightarrow> response \<times> usageTracker" where
  "middleware email usageTracker =
     (let t1 = (if \<not> ToBoolean (Get usageTracker email) then Put usageTracker email (Fin 0)
                else usageTracker)
      in if jge (ToNumber (Get t1 email)) FREE_LIMIT
         then (Json 403
                 [(''message'', ''Free limit reached. Please subscribe to continue.''),
                  (''redirectTo'', ''/subscribe.html?email='' @ encodeURIComponent email)],
               t1)
         else (Next, Put t1 email (jadd (ToNumber (Get t1 email)) (Fin 1))))"

text \<open>
  How each server reads the e-mail: \<open>a || b\<close> is \<open>b\<close> when \<open>a\<close> is missing
  or the empty string.
\<close>

definition orElse :: "string option \<Rightarrow> string \<Rightarrow> string" where
  "orElse a b = (case a of None \<Rightarrow> b | Some s \<Rightarrow> if s = [] then b else s)"

record request =
  query_email :: "string option"
  body_email :: "string option"
  session_email :: "string option"

definition email_of_query :: "request \<Rightarrow> string" where
  "email_of_query req = orElse (query_email req) (orElse (body_email req) ''guest'')"

definition email_of_session :: "request \<Rightarrow> string" where
  "email_of_session req = orElse (session_email req) ''guest''"


text \<open>The requests of one identity after another, each through the middleware.\<close>

fun serve :: "string list \<Rightarrow> usageTracker \<Rightarrow> response list \<times> usageTracker" where
  "serve [] t = ([], t)"
| "serve (email # emails) t =
     (let (r, t') = middleware email t; (rs, t'') = serve emails t' in (r # rs, t''))"


section \<open>Notions used to state the properties\<close>

text \<open>
  The material that \<open>getQuantity(index)\<close> leaves at position \<open>index\<close>: the
  material found there with the computed quantity.
\<close>

definition computed :: "Mixes \<Rightarrow> nat \<Rightarrow> Aggregate \<Rightarrow> Aggregate" where
  "computed m index material =
     material\<lparr>quantity :=
       Math_ceil (jmul (jmul (jdiv (getAggregate m index) (getSum m))
                             (jmul (volume m) (Mixes.factor m)))
                       (Aggregate.factor material))\<rparr>"

text \<open>A material with its quantity blanked: what two materials share when they differ
  in the quantity only.\<close>

definition withoutQuantity :: "Aggregate \<Rightarrow> Aggregate" where
  "withoutQuantity material = material\<lparr>quantity := NaN\<rparr>"

text \<open>
  A stored count that does not exceed the free limit: NaN (which compares false with
  everything) or one of 0, 1, 2, 3; and a tracker whose stored counts are all so.
\<close>

definition countOk :: "number \<Rightarrow> bool" where
  "countOk v = (v = NaN \<or> (\<exists>n\<le>3. v = Fin (of_nat n)))"


section \<open>Facts about numbers and strings\<close>

lemma ceiling_rat_numeral [simp]:
  "\<lceil>numeral a / numeral b :: rat\<rceil> = - (- numeral a div numeral b)"
  using ceiling_divide_eq_div [of "numeral a" "numeral b", where ?'a = rat] by simp

lemma ceiling_minus_rat_numeral [simp]:
  "\<lceil>- (numeral a / numeral b) :: rat\<rceil> = - (numeral a div numeral b)"
  using ceiling_divide_eq_div [of "- numeral a" "numeral b", where ?'a = rat] by simp

lemma jadd_zero_left [simp]: "jadd (Fin 0) x = x"
  by (cases x) simp_all

lemma jadd_NaN_right [simp]: "jadd x NaN = NaN"
  by (cases x) simp_all

lemma jmul_Fin [simp]: "jmul (Fin a) (Fin b) = Fin (a * b)"
  by (simp add: jmul_def)

lemma jmul_NaN [simp]: "jmul NaN x = NaN" "jmul x NaN = NaN"
  by (simp_all add: jmul_def split: number.splits)

lemma jdiv_NaN_right [simp]: "jdiv x NaN = NaN"
  by (cases x) simp_all

lemma jne_NaN [simp]: "jne NaN x"
  by (simp add: jne_def)


lemma String_split_not_Nil [simp]: "String_split c s \<noteq> []"
  by (induction s) (auto split: list.splits)



lemma parseFloat_1 [simp]: "parseFloat ''1'' = Fin 1"
  by code_simp

lemma parseFloat_2 [simp]: "parseFloat ''2'' = Fin 2"
  by code_simp

lemma parseFloat_4 [simp]: "parseFloat ''4'' = Fin 4"
  by code_simp

lemma parseFloat_x [simp]: "parseFloat ''x'' = NaN"
  by code_simp

lemma parseFloat_undefined [simp]: "parseFloat ''undefined'' = NaN"
  by code_simp

section \<open>The mix calculator: quantities\<close>







text \<open>
  C2. The mix of volume 10, ratio \<open>"1:2:4"\<close>, factor 1.54 with ballast, computed on the
  module's materials (cement 28.96 bags, sand 1.8 tons, ballast 2.2 tons per cubic
  metre): \<open>getCost\<close> stores the quantities 64, 8 and 20 and returns the three
  summaries with them. The values rounded up are 63.712, 7.92 and 19.36: none is within
  the rounding error of binary64 arithmetic of an integer.
\<close>

theorem getCost_example:
  "getCost (Concrete (Fin 10) (Fin (154 / 100)) ''1:2:4'' True materialList0) =
     Inr ([Some ''cement...64...bags...700...44800'',
           Some ''sand...8...tons...1350...10800'',
           Some ''ballast...20...tons...2500...50000''],
          Concrete (Fin 10) (Fin (154 / 100)) ''1:2:4'' True
            [cement\<lparr>quantity := Fin 64\<rparr>, sand\<lparr>quantity := Fin 8\<rparr>,
             ballast\<lparr>quantity := Fin 20\<rparr>])"
  by (simp add: getCost_def getQuantity_def Concrete_def materialList0_def getSum_def
      getAggregate_def getRatio_def subscript_def ToString_arg_def describe_def cost_def jne_def
      cement_def sand_def ballast_def Cement_def Sand_def Ballast_def Let_def
      positiveToString_def dec.simps digitChar_def)

section \<open>The mix calculator: effects and inputs\<close>

lemma getQuantity_computed:
  "getQuantity i w =
     (if i < length (materialList w)
      then Inr (describe (computed (this w) i (materialList w ! i)),
                w\<lparr>materialList := (materialList w)[i := computed (this w) i (materialList w ! i)]\<rparr>)
      else Inl TypeError)"
  by (simp add: getQuantity_def computed_def Let_def)

lemma computed_withoutQuantity [simp]:
  "computed m i (withoutQuantity material) = computed m i material"
  by (simp add: computed_def withoutQuantity_def)

lemma computed_cong:
  assumes "withoutQuantity a = withoutQuantity b"
  shows "computed m i a = computed m i b"
proof -
  have "computed m i a = computed m i (withoutQuantity a)" by simp
  also have "\<dots> = computed m i (withoutQuantity b)" using assms by simp
  finally show ?thesis by simp
qed

lemma computed_idem [simp]: "computed m i (computed m i material) = computed m i material"
  by (simp add: computed_def)

lemma withoutQuantity_computed [simp]:
  "withoutQuantity (computed m i material) = withoutQuantity material"
  by (simp add: computed_def withoutQuantity_def)

lemma getCost_computed:
  "getCost w =
     (if 3 \<le> length (materialList w)
      then Inr ([describe (computed (this w) 0 (materialList w ! 0)),
                 describe (computed (this w) 1 (materialList w ! 1)),
                 describe (computed (this w) 2 (materialList w ! 2))],
                w\<lparr>materialList := (materialList w)
                     [0 := computed (this w) 0 (materialList w ! 0),
                      1 := computed (this w) 1 (materialList w ! 1),
                      2 := computed (this w) 2 (materialList w ! 2)]\<rparr>)
      else Inl TypeError)"
  by (auto simp: getCost_def getQuantity_computed)

text \<open>
  C8. A call \<open>getQuantity(i)\<close> that returns changes nothing but the quantity of
  the \<open>i\<close>-th material of the list: the receiver (volume, factor, ratio,
  hasBallast) is the same, the list has the same length, every other material is the
  same, and the \<open>i\<close>-th material keeps its name, unit, price and factor. (A call
  that throws has changed nothing: the TypeError comes before the assignment.)
\<close>

theorem getQuantity_frame:
  assumes "getQuantity i w = Inr (r, w')"
  shows "this w' = this w
     \<and> length (materialList w') = length (materialList w)
     \<and> (\<forall>j. j \<noteq> i \<longrightarrow> materialList w' ! j = materialList w ! j)
     \<and> name (materialList w' ! i) = name (materialList w ! i)
     \<and> unit (materialList w' ! i) = unit (materialList w ! i)
     \<and> price (materialList w' ! i) = price (materialList w ! i)
     \<and> Aggregate.factor (materialList w' ! i) = Aggregate.factor (materialList w ! i)
     \<and> materialList w' = (materialList w)
          [i := (materialList w ! i)\<lparr>quantity := quantity (materialList w' ! i)\<rparr>]"
  using assms
  by (auto simp: getQuantity_computed computed_def split: if_splits)

text \<open>
  C7. \<open>getCost\<close> on a calculator built from the same volume, factor, ratio and
  hasBallast gives the same list of summaries (or the same error) whatever quantities
  the shared materials hold when it starts, as long as their other fields are the same;
  and a second call on the state the first one left returns the same list and leaves
  the same state.
\<close>

theorem getCost_deterministic:
  assumes "map withoutQuantity ms = map withoutQuantity ms'"
  shows "map_sum id fst (getCost (Concrete v f r b ms))
           = map_sum id fst (getCost (Concrete v f r b ms'))
     \<and> (\<forall>rs w. getCost (Concrete v f r b ms) = Inr (rs, w)
           \<longrightarrow> getCost (Concrete v f r b (materialList w)) = Inr (rs, w))"
proof -
  have len: "length ms = length ms'"
    using assms by (metis length_map)
  have nth: "withoutQuantity (ms ! k) = withoutQuantity (ms' ! k)" if "k < length ms" for k
    using assms that len by (metis nth_map)
  have first: "map_sum id fst (getCost (Concrete v f r b ms))
           = map_sum id fst (getCost (Concrete v f r b ms'))"
  proof (cases "3 \<le> length ms")
    case True
    then have "computed m 0 (ms ! 0) = computed m 0 (ms' ! 0)"
      "computed m 1 (ms ! 1) = computed m 1 (ms' ! 1)"
      "computed m 2 (ms ! 2) = computed m 2 (ms' ! 2)" for m
      by (auto intro!: computed_cong nth)
    then show ?thesis using True len
      by (simp add: getCost_computed Concrete_def)
  next
    case False
    then show ?thesis using len by (simp add: getCost_computed Concrete_def)
  qed
  have second: "getCost (Concrete v f r b (materialList w)) = Inr (rs, w)"
    if "getCost (Concrete v f r b ms) = Inr (rs, w)" for rs w
  proof -
    from that have "3 \<le> length ms"
      by (simp add: getCost_computed Concrete_def split: if_splits)
    then obtain x y z rest where ms: "ms = x # y # z # rest"
      by (auto simp: numeral_3_eq_3 Suc_le_length_iff)
    from that show ?thesis
      by (auto simp: getCost_computed Concrete_def ms)
  qed
  from first second show ?thesis by blast
qed


theorem getQuantity_frame_witness:
  "this (Concrete (Fin 10) (Fin (154 / 100)) ''1:2:4'' True [cement\<lparr>quantity := Fin 64\<rparr>, sand, ballast])
     = this (Concrete (Fin 10) (Fin (154 / 100)) ''1:2:4'' True materialList0)
   \<and> [cement\<lparr>quantity := Fin 64\<rparr>, sand, ballast] ! 1 = materialList0 ! 1
   \<and> [cement\<lparr>quantity := Fin 64\<rparr>, sand, ballast] ! 2 = materialList0 ! 2
   \<and> name ([cement\<lparr>quantity := Fin 64\<rparr>, sand, ballast] ! 0) = name (materialList0 ! 0)
   \<and> price ([cement\<lparr>quantity := Fin 64\<rparr>, sand, ballast] ! 0) = price (materialList0 ! 0)"
proof -
  have run: "getQuantity 0 (Concrete (Fin 10) (Fin (154 / 100)) ''1:2:4'' True materialList0)
      = Inr (Some ''cement...64...bags...700...44800'',
             Concrete (Fin 10) (Fin (154 / 100)) ''1:2:4'' True
               [cement\<lparr>quantity := Fin 64\<rparr>, sand, ballast])"
    by (simp add: getCost_def getQuantity_def Concrete_def materialList0_def getSum_def
      getAggregate_def getRatio_def subscript_def ToString_arg_def describe_def cost_def jne_def
      cement_def sand_def ballast_def Cement_def Sand_def Ballast_def Let_def
      positiveToString_def dec.simps digitChar_def)
  from getQuantity_frame [OF run] show ?thesis
    by (simp add: Concrete_def materialList0_def)
qed

theorem getCost_deterministic_witness:
  "map_sum id fst (getCost (Concrete (Fin 10) (Fin (154 / 100)) ''1:2:4'' True materialList0))
     = map_sum id fst (getCost (Concrete (Fin 10) (Fin (154 / 100)) ''1:2:4'' True
         [cement\<lparr>quantity := Fin 64\<rparr>, sand\<lparr>quantity := Fin 8\<rparr>,
          ballast\<lparr>quantity := Fin 20\<rparr>]))"
proof -
  have same: "map withoutQuantity materialList0
      = map withoutQuantity [cement\<lparr>quantity := Fin 64\<rparr>, sand\<lparr>quantity := Fin 8\<rparr>,
          ballast\<lparr>quantity := Fin 20\<rparr>]"
    by (simp add: materialList0_def withoutQuantity_def)
  from getCost_deterministic [OF same] show ?thesis
    by blast
qed







section \<open>Materials: the summary\<close>



section \<open>Blocks: dimensions\<close>

lemma digitChar_digit:
  assumes "d < 10"
  shows "isDigit (digitChar d)" and "digitValue (digitChar d) = d"
proof -
  from assms have "d \<in> {0, 1, 2, 3, 4, 5, 6, 7, 8, 9}"
    by auto
  then show "isDigit (digitChar d)" and "digitValue (digitChar d) = d"
    by (auto simp: digitChar_def isDigit_def digitValue_def)
qed

lemma dec_digits: "c \<in> set (dec n) \<Longrightarrow> isDigit c"
proof (induction n arbitrary: c rule: dec.induct)
  case (1 n)
  show ?case
  proof (cases "n < 10")
    case True
    with "1.prems" show ?thesis
      by (simp add: dec.simps [of n] digitChar_digit)
  next
    case False
    with "1.prems" "1.IH" show ?thesis
      by (auto simp: dec.simps [of n] digitChar_digit)
  qed
qed

lemma dec_not_Nil [simp]: "dec n \<noteq> []"
  by (subst dec.simps) simp

lemma digitsValue_snoc:
  "digitsValue r (ds @ [c]) = r * digitsValue r ds + digitValue c"
  by (simp add: digitsValue_def)

lemma digitsValue_dec [simp]: "digitsValue 10 (dec n) = n"
proof (induction n rule: dec.induct)
  case (1 n)
  show ?case
  proof (cases "n < 10")
    case True
    then show ?thesis
      by (simp add: dec.simps [of n] digitsValue_def digitChar_digit)
  next
    case False
    with "1.IH" show ?thesis
      by (simp add: dec.simps [of n] digitsValue_snoc digitChar_digit)
  qed
qed

lemma isDigit_not_other:
  assumes "isDigit c"
  shows "\<not> isWhiteSpace c" and "c \<noteq> CHR ''-''" and "c \<noteq> CHR ''+''" and "c \<noteq> CHR ''x''"
    and "c \<noteq> CHR ''X''"
  using assms by (auto simp: isDigit_def isWhiteSpace_def)

lemma parseInt_dec [simp]: "parseInt (dec n) = Fin (of_nat n)"
proof -
  obtain c cs where d: "dec n = c # cs"
    by (cases "dec n") simp_all
  have all: "\<forall>x \<in> set (dec n). isDigit x"
    by (simp add: dec_digits)
  then have c: "isDigit c"
    by (simp add: d)
  have ws: "dropWhile isWhiteSpace (dec n) = dec n"
    using isDigit_not_other(1) [OF c] by (simp add: d)
  have sign: "signOf (dec n) = (False, dec n)"
    using isDigit_not_other(2,3) [OF c] by (simp add: signOf_def d)
  have nohex: "take 2 (dec n) \<noteq> ''0x''" "take 2 (dec n) \<noteq> ''0X''"
  proof -
    have "x \<in> set (take 2 (dec n)) \<Longrightarrow> isDigit x" for x
      using all by (meson in_set_takeD)
    then have "CHR ''x'' \<notin> set (take 2 (dec n))" "CHR ''X'' \<notin> set (take 2 (dec n))"
      using isDigit_not_other(4,5) by blast+
    then show "take 2 (dec n) \<noteq> ''0x''" "take 2 (dec n) \<noteq> ''0X''"
      by auto
  qed
  have tw: "takeWhile isDigit (dec n) = dec n"
    using all by simp
  show ?thesis
    by (simp add: parseInt_def ws sign nohex tw Let_def)
qed

lemma x_not_in_dec [simp]: "CHR ''x'' \<notin> set (dec n)"
  using dec_digits isDigit_not_other(4) by blast





section \<open>The usage limiter: the free limit\<close>

lemma email_never_empty: "email_of_query req \<noteq> []" "email_of_session req \<noteq> []"
  by (simp_all add: email_of_query_def email_of_session_def orElse_def split: option.splits)

lemma middleware_proto:
  "t ''__proto__'' = None \<Longrightarrow> middleware ''__proto__'' t = (Next, t)"
  by (simp add: middleware_def Get_def Put_def ObjectPrototype_keys_def FREE_LIMIT_def Let_def)

lemma serve_proto:
  "t ''__proto__'' = None \<Longrightarrow> serve (replicate n ''__proto__'') t = (replicate n Next, t)"
  by (induction n) (simp_all add: middleware_proto)

text \<open>
  What the claim says, for an identity that is not a property name of
  \<open>Object.prototype\<close>.
\<close>

lemma middleware_ordinary_identity:
  assumes "email \<notin> set ObjectPrototype_keys" and "t email = None"
  shows "serve [email, email, email, email] t =
     ([Next, Next, Next,
       Json 403 [(''message'', ''Free limit reached. Please subscribe to continue.''),
                 (''redirectTo'', ''/subscribe.html?email='' @ encodeURIComponent email)]],
      t(email \<mapsto> Fin 3))"
    and "snd (serve [email] t) email = Some (Fin 1)"
    and "snd (serve [email, email] t) email = Some (Fin 2)"
    and "snd (serve [email, email, email] t) email = Some (Fin 3)"
    and "snd (serve [email, email, email, email] t) email = Some (Fin 3)"
proof -
  from assms(1) have np: "email \<noteq> ''__proto__''"
    by (auto simp: ObjectPrototype_keys_def)
  show "serve [email, email, email, email] t =
     ([Next, Next, Next,
       Json 403 [(''message'', ''Free limit reached. Please subscribe to continue.''),
                 (''redirectTo'', ''/subscribe.html?email='' @ encodeURIComponent email)]],
      t(email \<mapsto> Fin 3))"
    using assms np by (simp add: middleware_def Get_def Put_def FREE_LIMIT_def Let_def)
  show "snd (serve [email] t) email = Some (Fin 1)"
    "snd (serve [email, email] t) email = Some (Fin 2)"
    "snd (serve [email, email, email] t) email = Some (Fin 3)"
    "snd (serve [email, email, email, email] t) email = Some (Fin 3)"
    using assms np by (simp_all add: middleware_def Get_def Put_def FREE_LIMIT_def Let_def)
qed

text \<open>
  C4 fails for the identities that are property names of \<open>Object.prototype\<close>.
  For \<open>__proto__\<close> no count is ever stored and the fourth request passes like
  the first three. For \<open>constructor\<close> the first request stores NaN, which the
  second request takes for a missing count, so that four requests pass.
\<close>

theorem usage_limit_prototype_keys:
  "email_of_query \<lparr>query_email = Some ''__proto__'', body_email = None, session_email = None\<rparr>
     = ''__proto__''
   \<and> serve [''__proto__'', ''__proto__'', ''__proto__'', ''__proto__''] Map.empty
     = ([Next, Next, Next, Next], Map.empty)
   \<and> serve [''constructor'', ''constructor'', ''constructor'', ''constructor''] Map.empty
     = ([Next, Next, Next, Next], [''constructor'' \<mapsto> Fin 3])
   \<and> snd (serve [''constructor''] Map.empty) = [''constructor'' \<mapsto> NaN]"
  by (simp add: email_of_query_def orElse_def middleware_def Get_def Put_def ObjectPrototype_keys_def FREE_LIMIT_def Let_def)

lemma countOk_simps [simp]: "countOk NaN" "countOk (Fin 0)"
  by (auto simp: countOk_def intro: exI [of _ 0])










end
